theory Spec2Isabelle
  imports Complex_Main "HOL-Library.Product_Lexorder"
begin

section \<open>iCloud+ price collection and query: a shallow embedding\<close>

text \<open>
  The development follows the two JavaScript programs of the repository: the collection
  script (\<open>parsePrice\<close>, \<open>convertToCNY\<close>, \<open>main\<close>) and the launcher query script
  (\<open>getPriceData\<close>, \<open>filterRegions\<close>, \<open>sortByPrice\<close>, \<open>run\<close>).

  Conventions of the embedding:
  \<^item> a JavaScript string is the list of its UTF-16 code units (\<open>nat list\<close>), so that
    \<open>length\<close> is the \<open>.length\<close> of the source and the regular expressions \<open>\d\<close> and
    \<open>\s\<close> are sets of code units;
  \<^item> a finite JavaScript number is an exact rational: the rounding of IEEE 754 doubles
    after each operation is not part of the model. \<open>NaN\<close> and the infinities appear
    where the source produces them (\<open>parseFloat\<close>, the sort comparators);
  \<^item> \<open>null\<close>/\<open>undefined\<close> results are \<open>None\<close>; an exception is the left injection
    of a sum.
\<close>

subsection \<open>Strings\<close>

type_synonym jsstring = "nat list"

definition js :: "string \<Rightarrow> jsstring" where
  "js s = map of_char s"

definition is_digit :: "nat \<Rightarrow> bool" where
  "is_digit c = (48 \<le> c \<and> c \<le> 57)"

definition DOT :: nat where
  "DOT = 46"

definition COMMA :: nat where
  "COMMA = 44"

text \<open>\<open>String.prototype.split('.')\<close>: always at least one segment.\<close>

fun split_dot :: "jsstring \<Rightarrow> jsstring list" where
  "split_dot [] = [[]]"
| "split_dot (c # cs) =
     (if c = DOT then [] # split_dot cs
      else (case split_dot cs of [] \<Rightarrow> [[c]] | p # ps \<Rightarrow> (c # p) # ps))"

text \<open>\<open>Array.prototype.join('')\<close> is \<open>concat\<close>.\<close>

subsection \<open>\<open>parseFloat\<close> and \<open>parsePrice\<close>\<close>

fun digits_val :: "nat \<Rightarrow> jsstring \<Rightarrow> nat" where
  "digits_val acc [] = acc"
| "digits_val acc (c # cs) = digits_val (10 * acc + (c - 48)) cs"

text \<open>
  \<open>parseFloat\<close> on a string over digits and dots (all that \<open>parsePrice\<close> passes to it,
  see \<open>cleaned_alphabet\<close>): the longest prefix of the form \<open>digits\<close>, \<open>digits.\<close>,
  \<open>digits.digits\<close> or \<open>.digits\<close> is read as a decimal numeral; when there is no such
  prefix the result is \<open>NaN\<close>, here \<open>None\<close>.
\<close>

definition parseFloat :: "jsstring \<Rightarrow> rat option" where
  "parseFloat s =
     (let ip = takeWhile is_digit s;
          rest = dropWhile is_digit s;
          fp = (case rest of [] \<Rightarrow> [] | c # cs \<Rightarrow> if c = DOT then takeWhile is_digit cs else [])
      in if ip = [] \<and> fp = [] then None
         else Some (of_nat (digits_val 0 ip) + of_nat (digits_val 0 fp) / 10 ^ length fp))"

text \<open>\<open>priceStr.replace(/[^\d.,]/g, '').replace(/,/g, '.')\<close>\<close>

definition cleaned :: "jsstring \<Rightarrow> jsstring" where
  "cleaned priceStr =
     map (\<lambda>c. if c = COMMA then DOT else c)
       (filter (\<lambda>c. is_digit c \<or> c = DOT \<or> c = COMMA) priceStr)"

definition parsePrice :: "jsstring \<Rightarrow> rat option" where
  "parsePrice priceStr =
     (let cl = cleaned priceStr; parts = split_dot cl
      in if length parts > 2
         then parseFloat (concat (butlast parts) @ [DOT] @ last parts)
         else parseFloat cl)"

text \<open>
  The algorithm in the words of the specification: more than one dot-separated segment
  means that all segments but the last are joined as the integer part and the last one
  is the fractional part.
\<close>

definition parsePrice_spec :: "jsstring \<Rightarrow> rat option" where
  "parsePrice_spec priceStr =
     (let cl = cleaned priceStr; segs = split_dot cl
      in if length segs > 1
         then parseFloat (concat (butlast segs) @ [DOT] @ last segs)
         else parseFloat cl)"

subsection \<open>Numbers that may be infinite or \<open>NaN\<close>\<close>

datatype jsnum = Fin rat | PosInf | NegInf | NaN

text \<open>The subtraction of IEEE 754 on these values: \<open>Infinity - Infinity\<close> is \<open>NaN\<close>.\<close>

fun js_sub :: "jsnum \<Rightarrow> jsnum \<Rightarrow> jsnum" where
  "js_sub (Fin a) (Fin b) = Fin (a - b)"
| "js_sub NaN _ = NaN"
| "js_sub _ NaN = NaN"
| "js_sub PosInf PosInf = NaN"
| "js_sub NegInf NegInf = NaN"
| "js_sub PosInf _ = PosInf"
| "js_sub NegInf _ = NegInf"
| "js_sub (Fin _) PosInf = NegInf"
| "js_sub (Fin _) NegInf = PosInf"

fun js_positive :: "jsnum \<Rightarrow> bool" where
  "js_positive (Fin r) = (0 < r)"
| "js_positive PosInf = True"
| "js_positive NegInf = False"
| "js_positive NaN = False"

text \<open>\<open>Math.round\<close>: the nearest integer, a tie going up.\<close>

definition Math_round :: "rat \<Rightarrow> int" where
  "Math_round x = \<lfloor>x + 1 / 2\<rfloor>"


subsection \<open>\<open>Array.prototype.sort\<close> with a comparator\<close>

text \<open>
  ECMAScript requires the sort to be stable and reads the comparator's result \<open>v\<close> as:
  \<open>v > 0\<close> puts the first argument after the second, anything else (negative, zero
  or \<open>NaN\<close>) leaves the earlier element first. The algorithm itself is left to the
  engine; the model is the stable insertion sort.
\<close>

fun insert_sorted :: "('a \<Rightarrow> 'a \<Rightarrow> jsnum) \<Rightarrow> 'a \<Rightarrow> 'a list \<Rightarrow> 'a list" where
  "insert_sorted cmp x [] = [x]"
| "insert_sorted cmp x (y # ys) =
     (if js_positive (cmp x y) then y # insert_sorted cmp x ys else x # y # ys)"

definition array_sort :: "('a \<Rightarrow> 'a \<Rightarrow> jsnum) \<Rightarrow> 'a list \<Rightarrow> 'a list" where
  "array_sort cmp xs = foldr (insert_sorted cmp) xs []"

subsection \<open>The collection script: data\<close>

record plan =
  Name :: jsstring
  Price :: rat

record nplan = plan +
  PriceInCNY :: rat

record 'p region =
  CountryISO :: jsstring
  Country :: jsstring
  Currency :: jsstring
  Plans :: "'p list"

record dataset =
  lastUpdated :: jsstring
  source :: jsstring
  regions :: "nplan region list"

datatype error = NetworkError | SyntaxError | TypeError

text \<open>The exchange-rate object: a currency code is a key or it is not.\<close>

type_synonym rates = "jsstring \<rightharpoonup> rat"

subsection \<open>\<open>convertToCNY\<close> and \<open>main\<close>\<close>

text \<open>\<open>!rate\<close>: the key is missing, or its value is zero.\<close>

definition no_rate :: "rat option \<Rightarrow> bool" where
  "no_rate r = (case r of None \<Rightarrow> True | Some v \<Rightarrow> v = 0)"

definition convertToCNY :: "rat \<Rightarrow> jsstring \<Rightarrow> rates \<Rightarrow> rat" where
  "convertToCNY price currency rates =
     (if currency = js ''CNY'' then price
      else
        (let usdRate = rates currency; cnyRate = rates (js ''CNY'')
         in if no_rate usdRate \<or> no_rate cnyRate then price
            else (price / the usdRate) * the cnyRate))"

text \<open>
  The two maps of \<open>main\<close> (lines 395 to 401): every plan keeps its fields and gains
  \<open>PriceInCNY\<close>, the converted price rounded to two fraction digits.
\<close>

definition normalize_plan :: "rates \<Rightarrow> jsstring \<Rightarrow> plan \<Rightarrow> nplan" where
  "normalize_plan rates currency p =
     \<lparr>Name = Name p, Price = Price p,
      PriceInCNY = of_int (Math_round (convertToCNY (Price p) currency rates * 100)) / 100\<rparr>"

definition normalize_region :: "rates \<Rightarrow> plan region \<Rightarrow> nplan region" where
  "normalize_region rates r =
     \<lparr>CountryISO = CountryISO r, Country = Country r, Currency = Currency r,
      Plans = map (normalize_plan rates (Currency r)) (Plans r)\<rparr>"

text \<open>
  The comparator of \<open>main\<close> (lines 405 to 409):
  \<open>a.Plans.find(p => p.Name === '50GB')?.PriceInCNY || Infinity\<close>. The operator
  \<open>||\<close> takes its right operand for every falsy left operand: \<open>undefined\<close> (no such
  plan) and also the number \<open>0\<close>.
\<close>

definition benchmark_price :: "nplan region \<Rightarrow> jsnum" where
  "benchmark_price a =
     (case find (\<lambda>p. Name p = js ''50GB'') (Plans a) of
        None \<Rightarrow> PosInf
      | Some p \<Rightarrow> if PriceInCNY p = 0 then PosInf else Fin (PriceInCNY p))"

definition main_compare :: "nplan region \<Rightarrow> nplan region \<Rightarrow> jsnum" where
  "main_compare a b = js_sub (benchmark_price a) (benchmark_price b)"

text \<open>
  \<open>main\<close> from the exchange rates on. \<open>fetched\<close> is the outcome of
  \<open>getExchangeRates()\<close> (an error when the request or \<open>JSON.parse\<close> throws),
  \<open>rs\<close> the value of the variable \<open>regions\<close> at line 391 (the scraped regions or
  the fallback table; obtaining them never ends the run), \<open>stamp\<close> the ISO time of the
  run. Line 371 calls \<open>rates.CNY.toFixed(4)\<close>, which throws when the table has no
  \<open>CNY\<close> key; every exception ends the run in the outer \<open>catch\<close>
  (\<open>process.exit(1)\<close>), here the left injection.
\<close>

definition main_result :: "error + rates \<Rightarrow> plan region list \<Rightarrow> jsstring \<Rightarrow> error + dataset" where
  "main_result fetched rs stamp =
     (case fetched of
        Inl e \<Rightarrow> Inl e
      | Inr rates \<Rightarrow>
          (case rates (js ''CNY'') of
             None \<Rightarrow> Inl TypeError
           | Some _ \<Rightarrow>
               Inr \<lparr>lastUpdated = stamp,
                    source = js ''Apple Support + ExchangeRate-API'',
                    regions = array_sort main_compare (map (normalize_region rates) rs)\<rparr>))"

subsection \<open>The query script: files, clock and network\<close>

text \<open>
  What the script sees of its machine. A file has a content (\<open>None\<close> when it cannot be
  read as UTF-8 text) and a modification time in milliseconds since the epoch (\<open>None\<close>
  when its attributes cannot be read). The world also records the calls made, in order.
\<close>

datatype os_call = MkDir jsstring | Read jsstring | Write jsstring | Fetch jsstring

record fileinfo =
  content :: "jsstring option"
  modified :: "rat option"

record world =
  files :: "jsstring \<rightharpoonup> fileinfo"
  calls :: "os_call list"

text \<open>
  The surroundings of one run: the two directories (\<open>getCacheDir()\<close>,
  \<open>getWorkflowDir()\<close>), the clock (\<open>Date.now()\<close>), what \<open>curl\<close> delivers for a URL
  (\<open>None\<close> when it exits with a non-zero status) and the value a JSON text denotes
  (\<open>None\<close> when the text is not JSON). The JSON grammar is a parameter.
\<close>

record 'j env =
  cacheDir :: jsstring
  workflowDir :: jsstring
  now :: rat
  curl :: "jsstring \<Rightarrow> jsstring option"
  json :: "jsstring \<Rightarrow> 'j option"

definition cacheTTL :: rat where
  "cacheTTL = 3600 * 1000"

definition dataURL :: jsstring where
  "dataURL = js ''https://raw.githubusercontent.com/YOUR_USERNAME/icloud-pricing/main/data/prices.json''"

text \<open>\<open>JSON.parse\<close> throws a \<open>SyntaxError\<close> on every text that is not JSON; the empty text is not.\<close>

definition JSON_parse :: "'j env \<Rightarrow> jsstring \<Rightarrow> error + 'j" where
  "JSON_parse env s =
     (if s = [] then Inl SyntaxError
      else (case json env s of None \<Rightarrow> Inl SyntaxError | Some v \<Rightarrow> Inr v))"

definition ensureDir :: "jsstring \<Rightarrow> world \<Rightarrow> world" where
  "ensureDir path w = w\<lparr>calls := calls w @ [MkDir path]\<rparr>"

definition readFile :: "jsstring \<Rightarrow> world \<Rightarrow> jsstring option \<times> world" where
  "readFile path w =
     ((case files w path of None \<Rightarrow> None | Some f \<Rightarrow> content f),
      w\<lparr>calls := calls w @ [Read path]\<rparr>)"

definition writeFile :: "jsstring \<Rightarrow> jsstring \<Rightarrow> 'j env \<Rightarrow> world \<Rightarrow> world" where
  "writeFile path body env w =
     w\<lparr>files := (files w)(path \<mapsto> \<lparr>content = Some body, modified = Some (now env)\<rparr>),
       calls := calls w @ [Write path]\<rparr>"

text \<open>\<open>getFileMtime\<close> answers \<open>0\<close> for a missing file and for unreadable attributes.\<close>

definition getFileMtime :: "jsstring \<Rightarrow> world \<Rightarrow> rat" where
  "getFileMtime path w =
     (case files w path of
        None \<Rightarrow> 0
      | Some f \<Rightarrow> (case modified f of None \<Rightarrow> 0 | Some m \<Rightarrow> m))"

definition fetchRemote :: "jsstring \<Rightarrow> 'j env \<Rightarrow> world \<Rightarrow> jsstring option \<times> world" where
  "fetchRemote url env w = (curl env url, w\<lparr>calls := calls w @ [Fetch url]\<rparr>)"

subsection \<open>\<open>getPriceData\<close>\<close>

text \<open>
  The pattern \<open>if (text) { try { ... JSON.parse(text) ... } catch (e) {} }\<close> of every
  step: the text and its value when the text is truthy and parses, nothing when the text
  is \<open>null\<close> or empty or when \<open>JSON.parse\<close> throws (the \<open>catch\<close> is empty).
\<close>

definition parsed :: "'j env \<Rightarrow> jsstring option \<Rightarrow> (jsstring \<times> 'j) option" where
  "parsed env body =
     (case body of
        None \<Rightarrow> None
      | Some s \<Rightarrow>
          if s = [] then None
          else (case JSON_parse env s of Inl e \<Rightarrow> None | Inr v \<Rightarrow> Some (s, v)))"

text \<open>
  The result is \<open>Inr (Some v)\<close> for \<open>return v\<close> with a parsed value, \<open>Inr None\<close> for
  the final \<open>return null\<close>, and \<open>Inl e\<close> for an exception that leaves the function.
  The function is written here from its last step to its first; each step ends in a
  \<open>return\<close> or goes on with the next one.
\<close>

text \<open>Lines 634 to 642: the cache file again, whatever its age, then \<open>null\<close>.\<close>

definition stale_step :: "'j env \<Rightarrow> jsstring \<Rightarrow> world \<Rightarrow> (error + 'j option) \<times> world" where
  "stale_step env cachePath w =
     (let (expiredCache, w') = readFile cachePath w
      in case parsed env expiredCache of
           Some (s, v) \<Rightarrow> (Inr (Some v), w')
         | None \<Rightarrow> (Inr None, w'))"

text \<open>Lines 622 to 632: the remote copy, written to the cache when it parses.\<close>

definition remote_step :: "'j env \<Rightarrow> jsstring \<Rightarrow> world \<Rightarrow> (error + 'j option) \<times> world" where
  "remote_step env cachePath w =
     (let (remote, w') = fetchRemote dataURL env w
      in case parsed env remote of
           Some (s, v) \<Rightarrow> (Inr (Some v), writeFile cachePath s env w')
         | None \<Rightarrow> stale_step env cachePath w')"

text \<open>Lines 607 to 620: the copy shipped with the workflow, written to the cache when it parses.\<close>

definition local_step :: "'j env \<Rightarrow> jsstring \<Rightarrow> world \<Rightarrow> (error + 'j option) \<times> world" where
  "local_step env cachePath w =
     (let localPath = workflowDir env @ js ''/data/prices.json'';
          (local, w') = readFile localPath w
      in case parsed env local of
           Some (s, v) \<Rightarrow> (Inr (Some v), writeFile cachePath s env w')
         | None \<Rightarrow> remote_step env cachePath w')"

text \<open>Lines 587 to 605: the cache file is read only when \<open>mtime && (now - mtime) < TTL\<close>.\<close>

definition getPriceData :: "'j env \<Rightarrow> world \<Rightarrow> (error + 'j option) \<times> world" where
  "getPriceData env w0 =
     (let cacheDir' = cacheDir env;
          cachePath = cacheDir' @ js ''/prices.json'';
          w1 = ensureDir cacheDir' w0;
          mtime = getFileMtime cachePath w1;
          (cached, w2) =
            (if mtime \<noteq> 0 \<and> now env - mtime < cacheTTL then readFile cachePath w1
             else (None, w1))
      in case parsed env cached of
           Some (s, v) \<Rightarrow> (Inr (Some v), w2)
         | None \<Rightarrow> local_step env cachePath w2)"

subsection \<open>The query script: filtering, sorting, items\<close>

text \<open>
  Case mapping is modelled on the letters \<open>A\<close> to \<open>Z\<close> and \<open>a\<close> to \<open>z\<close>; the
  mapping of letters outside ASCII is not part of the model (they are left as they are).
\<close>

definition toUpperCase :: "jsstring \<Rightarrow> jsstring" where
  "toUpperCase s = map (\<lambda>c. if 97 \<le> c \<and> c \<le> 122 then c - 32 else c) s"

definition toLowerCase :: "jsstring \<Rightarrow> jsstring" where
  "toLowerCase s = map (\<lambda>c. if 65 \<le> c \<and> c \<le> 90 then c + 32 else c) s"

text \<open>The code units of \<open>\s\<close>, which are also those \<open>trim\<close> removes.\<close>

definition is_space :: "nat \<Rightarrow> bool" where
  "is_space c =
     (c \<in> {9, 10, 11, 12, 13, 32, 160, 5760, 8232, 8233, 8239, 8287, 12288, 65279}
      \<or> (8192 \<le> c \<and> c \<le> 8202))"

definition trim :: "jsstring \<Rightarrow> jsstring" where
  "trim s = rev (dropWhile is_space (rev (dropWhile is_space s)))"

text \<open>\<open>argv.join(' ')\<close>\<close>

fun join_space :: "jsstring list \<Rightarrow> jsstring" where
  "join_space [] = []"
| "join_space [a] = a"
| "join_space (a # b # rest) = a @ [32] @ join_space (b # rest)"

text \<open>\<open>split(/\s+/)\<close>: every maximal run of white space separates two segments.\<close>

function split_spaces :: "jsstring \<Rightarrow> jsstring list" where
  "split_spaces [] = [[]]"
| "split_spaces (c # cs) =
     (if is_space c then [] # split_spaces (dropWhile is_space cs)
      else (case split_spaces cs of [] \<Rightarrow> [[c]] | p # ps \<Rightarrow> (c # p) # ps))"
  by pat_completeness auto
termination
  by (relation "measure length") (auto simp: length_dropWhile_le less_Suc_eq_le)

text \<open>\<open>haystack.indexOf(needle)\<close>: the first position where the needle starts, or \<open>-1\<close>.\<close>

fun index_from :: "nat \<Rightarrow> jsstring \<Rightarrow> jsstring \<Rightarrow> int" where
  "index_from i [] needle = (if needle = [] then int i else - 1)"
| "index_from i (c # cs) needle =
     (if take (length needle) (c # cs) = needle then int i
      else index_from (Suc i) cs needle)"

definition indexOf :: "jsstring \<Rightarrow> jsstring \<Rightarrow> int" where
  "indexOf haystack needle = index_from 0 haystack needle"

definition filterRegions :: "nplan region list \<Rightarrow> jsstring option \<Rightarrow> nplan region list" where
  "filterRegions rs query =
     (case query of
        None \<Rightarrow> rs
      | Some q \<Rightarrow>
          if q = [] then rs
          else
            (let query' = toUpperCase q
             in filter (\<lambda>r. indexOf (toUpperCase (CountryISO r)) query' \<noteq> - 1 \<or>
                            indexOf (toUpperCase (Country r)) query' \<noteq> - 1) rs))"

text \<open>
  The comparator of \<open>sortByPrice\<close>: \<open>planA ? planA.PriceInCNY : Infinity\<close>. A plan
  object is truthy whatever its price.
\<close>

definition plan_price :: "jsstring \<Rightarrow> nplan region \<Rightarrow> jsnum" where
  "plan_price planName a =
     (case find (\<lambda>p. Name p = planName) (Plans a) of
        None \<Rightarrow> PosInf
      | Some planA \<Rightarrow> Fin (PriceInCNY planA))"

definition sortByPrice :: "nplan region list \<Rightarrow> jsstring \<Rightarrow> nplan region list" where
  "sortByPrice rs planName =
     array_sort (\<lambda>a b. js_sub (plan_price planName a) (plan_price planName b)) rs"

text \<open>
  An output item keeps the arguments of \<open>createItem\<close>; the display strings built from
  them (flag, title, subtitle) are presentation. The rank is a number or the placeholder
  \<open>'-'\<close>. The last item of a listing may be the note on the update time.
\<close>

datatype rank = Dash | Rank nat

datatype item =
  PlanItem (item_region: "nplan region") (item_plan: nplan) (item_planName: jsstring)
    (item_rank: rank)
| UpdatedItem jsstring

definition createItem :: "nplan region \<Rightarrow> nplan \<Rightarrow> jsstring \<Rightarrow> rank \<Rightarrow> item" where
  "createItem r p planName rk = PlanItem r p planName rk"

subsection \<open>\<open>run\<close>\<close>

definition PLAN_TYPES :: "jsstring list" where
  "PLAN_TYPES = [js ''50gb'', js ''200gb'', js ''2tb'', js ''6tb'', js ''12tb'']"

text \<open>The body of \<open>parts.forEach\<close> on the pair \<open>(selectedPlan, searchQuery)\<close>.\<close>

definition parse_part ::
  "jsstring option \<times> jsstring option \<Rightarrow> jsstring \<Rightarrow> jsstring option \<times> jsstring option" where
  "parse_part st part =
     (if part \<in> set PLAN_TYPES then (Some (toUpperCase part), snd st)
      else if length part \<ge> 2 then (fst st, Some part)
      else st)"

text \<open>Lines 763 to 778: the loop from \<open>(null, null)\<close>, then the default plan.\<close>

definition parse_parts :: "jsstring list \<Rightarrow> jsstring \<times> jsstring option" where
  "parse_parts parts =
     (let (selectedPlan, searchQuery) = foldl parse_part (None, None) parts
      in ((case selectedPlan of
             None \<Rightarrow> js ''50GB''
           | Some p \<Rightarrow> if p = [] then js ''50GB'' else p),
          searchQuery))"

definition query_of :: "jsstring list \<Rightarrow> jsstring" where
  "query_of argv = trim (toLowerCase (join_space argv))"

definition parts_of :: "jsstring \<Rightarrow> jsstring list" where
  "parts_of query = filter (\<lambda>p. length p > 0) (split_spaces query)"

text \<open>The loop of the ranking branch; \<open>idx\<close> is the index \<open>forEach\<close> passes.\<close>

fun ranked_items :: "jsstring \<Rightarrow> nat \<Rightarrow> nplan region list \<Rightarrow> item list" where
  "ranked_items selectedPlan idx [] = []"
| "ranked_items selectedPlan idx (r # rest) =
     (case find (\<lambda>p. Name p = selectedPlan) (Plans r) of
        Some p \<Rightarrow> createItem r p selectedPlan (Rank (idx + 1)) # ranked_items selectedPlan (Suc idx) rest
      | None \<Rightarrow> ranked_items selectedPlan (Suc idx) rest)"

text \<open>Lines 803 to 820: all plans of the single matching region, or the ranking.\<close>

definition region_items :: "jsstring option \<Rightarrow> jsstring \<Rightarrow> nplan region list \<Rightarrow> item list" where
  "region_items searchQuery selectedPlan filtered =
     (if searchQuery \<noteq> None \<and> searchQuery \<noteq> Some [] \<and> length filtered = 1
      then (let r = hd filtered in map (\<lambda>p. createItem r p (Name p) Dash) (Plans r))
      else ranked_items selectedPlan 0 (sortByPrice filtered selectedPlan))"

text \<open>
  A parsed document of the persisted shape, as far as \<open>run\<close> reads it: \<open>lastUpdated\<close>
  and \<open>regions\<close>, each of which may be missing.
\<close>

record document =
  doc_lastUpdated :: "jsstring option"
  doc_regions :: "nplan region list option"

datatype response = HelpOutput | ErrorOutput | NoMatch | Items "item list"

definition run :: "jsstring list \<Rightarrow> document env \<Rightarrow> world \<Rightarrow> (error + response) \<times> world" where
  "run argv env w =
     (let query = query_of argv
      in if query = js ''help'' \<or> query = js ''?'' then (Inr HelpOutput, w)
         else
           (let (selectedPlan, searchQuery) = parse_parts (parts_of query);
                (got, w') = getPriceData env w
            in case got of
                 Inl e \<Rightarrow> (Inl e, w')
               | Inr None \<Rightarrow> (Inr ErrorOutput, w')
               | Inr (Some data) \<Rightarrow>
                   (case doc_regions data of
                      None \<Rightarrow> (Inr ErrorOutput, w')
                    | Some rs \<Rightarrow>
                        if rs = [] then (Inr ErrorOutput, w')
                        else
                          (let filtered = filterRegions rs searchQuery
                           in if filtered = [] then (Inr NoMatch, w')
                              else
                                (let items = region_items searchQuery selectedPlan filtered
                                 in (Inr (Items
                                       (case doc_lastUpdated data of
                                          None \<Rightarrow> items
                                        | Some d \<Rightarrow> if d = [] then items else items @ [UpdatedItem d])),
                                     w'))))))"

subsection \<open>Notions used to state the properties\<close>

text \<open>A region offers a tier when \<open>find\<close> yields a plan of that name.\<close>

definition has_plan :: "jsstring \<Rightarrow> nplan region \<Rightarrow> bool" where
  "has_plan planName r = (find (\<lambda>p. Name p = planName) (Plans r) \<noteq> None)"

text \<open>
  The order \<open>sortByPrice\<close> sorts by, as a key in a linear order: regions with the tier
  come first, by price; a region without it compares like positive infinity. Pairs are
  ordered lexicographically and \<open>False < True\<close>.
\<close>

definition order_key :: "jsstring \<Rightarrow> nplan region \<Rightarrow> bool \<times> rat" where
  "order_key planName r =
     (case find (\<lambda>p. Name p = planName) (Plans r) of
        None \<Rightarrow> (True, 0)
      | Some p \<Rightarrow> (False, PriceInCNY p))"

text \<open>The text of a file, as \<open>readFile\<close> delivers it.\<close>

definition file_text :: "world \<Rightarrow> jsstring \<Rightarrow> jsstring option" where
  "file_text w path = fst (readFile path w)"

subsection \<open>Example data\<close>



text \<open>
  Two regions for the ranking: nine rupiah (what \<open>parsePrice\<close> makes of \<open>"9.000"\<close>) are
  0.00405 yuan at these rates, which rounds to \<open>0\<close>. Their normalized forms, a region
  in dollars, and a region that offers the 2 TB tier only.
\<close>

definition idr_rates :: rates where
  "idr_rates = [js ''IDR'' \<mapsto> 16000, js ''CNY'' \<mapsto> 72 / 10]"

definition region_id :: "plan region" where
  "region_id = \<lparr>CountryISO = js ''ID'', Country = js ''Indonesia'', Currency = js ''IDR'',
                 Plans = [\<lparr>Name = js ''50GB'', Price = 9\<rparr>]\<rparr>"

definition region_cn :: "plan region" where
  "region_cn = \<lparr>CountryISO = js ''CN'', Country = js ''China'', Currency = js ''CNY'',
                 Plans = [\<lparr>Name = js ''50GB'', Price = 6\<rparr>]\<rparr>"

definition normalized_id :: "nplan region" where
  "normalized_id = \<lparr>CountryISO = js ''ID'', Country = js ''Indonesia'', Currency = js ''IDR'',
                 Plans = [\<lparr>Name = js ''50GB'', Price = 9, PriceInCNY = 0\<rparr>]\<rparr>"

definition normalized_cn :: "nplan region" where
  "normalized_cn = \<lparr>CountryISO = js ''CN'', Country = js ''China'', Currency = js ''CNY'',
                 Plans = [\<lparr>Name = js ''50GB'', Price = 6, PriceInCNY = 6\<rparr>]\<rparr>"

definition normalized_us :: "nplan region" where
  "normalized_us = \<lparr>CountryISO = js ''US'', Country = js ''United States'', Currency = js ''USD'',
                 Plans = [\<lparr>Name = js ''50GB'', Price = 99 / 100, PriceInCNY = 713 / 100\<rparr>]\<rparr>"

definition normalized_2tb_only :: "nplan region" where
  "normalized_2tb_only = \<lparr>CountryISO = js ''JP'', Country = js ''Japan'', Currency = js ''JPY'',
                 Plans = [\<lparr>Name = js ''2TB'', Price = 1500, PriceInCNY = 72\<rparr>]\<rparr>"

text \<open>
  Machines for the cache resolver. The JSON texts \<open>1\<close> and \<open>2\<close> denote the numbers
  \<open>1\<close> and \<open>2\<close>; no other text is needed. Times are milliseconds since the epoch.
\<close>

definition digits_json :: "jsstring \<Rightarrow> nat option" where
  "digits_json s = (if s = js ''1'' then Some 1 else if s = js ''2'' then Some 2 else None)"

definition offline_env :: "nat env" where
  "offline_env = \<lparr>cacheDir = js ''/cache'', workflowDir = js ''/wf'', now = 5000000,
                  curl = (\<lambda>url. None), json = digits_json\<rparr>"

definition empty_world :: world where
  "empty_world = \<lparr>files = Map.empty, calls = []\<rparr>"

definition fresh_world :: world where
  "fresh_world =
     \<lparr>files = [js ''/cache/prices.json'' \<mapsto> \<lparr>content = Some (js ''1''), modified = Some 4000000\<rparr>,
               js ''/wf/data/prices.json'' \<mapsto> \<lparr>content = Some (js ''2''), modified = Some 1000\<rparr>],
      calls = []\<rparr>"

definition corrupt_world :: world where
  "corrupt_world =
     \<lparr>files = [js ''/cache/prices.json'' \<mapsto> \<lparr>content = Some (js ''{''), modified = Some 4000000\<rparr>,
               js ''/wf/data/prices.json'' \<mapsto> \<lparr>content = Some (js ''2''), modified = Some 1000\<rparr>],
      calls = []\<rparr>"

definition epoch_env :: "nat env" where
  "epoch_env = \<lparr>cacheDir = js ''/cache'', workflowDir = js ''/wf'', now = 1000,
                curl = (\<lambda>url. None), json = digits_json\<rparr>"

definition epoch_world :: world where
  "epoch_world =
     \<lparr>files = [js ''/cache/prices.json'' \<mapsto> \<lparr>content = Some (js ''1''), modified = Some 0\<rparr>,
               js ''/wf/data/prices.json'' \<mapsto> \<lparr>content = Some (js ''2''), modified = Some 500\<rparr>],
      calls = []\<rparr>"

section \<open>Properties\<close>

subsection \<open>Price strings\<close>

lemma split_dot_not_Nil [simp]: "split_dot s \<noteq> []"
  by (induction s) (auto split: list.splits)

lemma split_dot_one: "split_dot s = [b] \<Longrightarrow> s = b"
  by (induction s arbitrary: b) (auto split: list.splits if_splits)

lemma split_dot_two: "split_dot s = [a, b] \<Longrightarrow> s = a @ [DOT] @ b"
  by (induction s arbitrary: a) (auto split: list.splits if_splits dest: split_dot_one)

text \<open>\<open>parseFloat\<close> only ever sees digits and dots.\<close>

lemma cleaned_alphabet: "c \<in> set (cleaned s) \<Longrightarrow> is_digit c \<or> c = DOT"
  by (auto simp: cleaned_def)

lemma length_two: "length xs = 2 \<Longrightarrow> \<exists>a b. xs = [a, b]"
  by (cases xs; cases "tl xs"; auto)

text \<open>
  With exactly two segments, joining "all but the last" and the last around a dot gives
  the cleaned string back, so the threshold \<open>> 2\<close> of the code and the threshold
  \<open>> 1\<close> of the specification compute the same number.
\<close>

lemma parsePrice_eq_spec: "parsePrice s = parsePrice_spec s"
proof (cases "length (split_dot (cleaned s)) = 2")
  case True
  then obtain a b where ab: "split_dot (cleaned s) = [a, b]"
    using length_two by blast
  have "cleaned s = a @ [DOT] @ b"
    using ab by (rule split_dot_two)
  then show ?thesis
    unfolding parsePrice_def parsePrice_spec_def Let_def ab by simp
next
  case False
  then show ?thesis
    by (auto simp: parsePrice_def parsePrice_spec_def Let_def)
qed

text \<open>A parsed price is never negative: the minus sign is among the stripped characters.\<close>

lemma parseFloat_nonneg: "parseFloat s = Some p \<Longrightarrow> 0 \<le> p"
  by (auto simp: parseFloat_def Let_def split: if_splits)

lemma parsePrice_nonneg: "parsePrice s = Some p \<Longrightarrow> 0 \<le> p"
  by (auto simp: parsePrice_def Let_def split: if_splits dest: parseFloat_nonneg)

lemmas parsePrice_eval =
  parsePrice_def js_def cleaned_def is_digit_def DOT_def COMMA_def parseFloat_def

lemma parsePrice_dollar: "parsePrice (js ''$0.99'') = Some (99 / 100)"
  by (simp add: parsePrice_eval)

lemma parsePrice_european: "parsePrice (js ''1.234,56'') = Some (123456 / 100)"
  by (simp add: parsePrice_eval)

lemma parsePrice_yen: "parsePrice (165 # js ''198'') = Some 198"
  by (simp add: parsePrice_eval)

text \<open>
  A dot followed by three digits is read as a fraction, also where it groups thousands.
\<close>

lemma parsePrice_grouped_thousands: "parsePrice (js ''9.000'') = Some 9"
  by (simp add: parsePrice_eval)

lemma parsePrice_three_digits: "parsePrice (js ''1.234'') = Some (1234 / 1000)"
  by (simp add: parsePrice_eval)

text \<open>
  C5. For every input string \<open>parsePrice\<close> computes what the specification's algorithm
  computes: strip everything but digits, comma and dot, turn commas into dots, and with
  more than one dot-separated segment read all segments but the last as the integer part
  and the last as the fraction. In particular \<open>"$0.99"\<close> parses to \<open>0.99\<close>,
  \<open>"1.234,56"\<close> to \<open>1234.56\<close> and the yen sign (code unit 165) followed by \<open>198\<close>
  to \<open>198\<close>.
\<close>

theorem parsePrice_as_specified:
  "parsePrice s = parsePrice_spec s \<and>
   parsePrice (js ''$0.99'') = Some (99 / 100) \<and>
   parsePrice (js ''1.234,56'') = Some (123456 / 100) \<and>
   parsePrice (165 # js ''198'') = Some 198"
  by (intro conjI parsePrice_eq_spec parsePrice_dollar parsePrice_european parsePrice_yen)

subsection \<open>Currency conversion\<close>












text \<open>A table without the key \<open>CNY\<close> ends the run at line 371, before any conversion.\<close>

lemma main_result_without_CNY:
  "rates (js ''CNY'') = None \<Longrightarrow> main_result (Inr rates) rs stamp = Inl TypeError"
  by (simp add: main_result_def)














subsection \<open>Sorting\<close>

text \<open>
  \<open>sortByPrice\<close> is the stable sort by \<open>order_key\<close>: ascending by the price of the
  tier, regions without the tier last, equal keys in their original order.
\<close>

lemma compare_by_order_key:
  "js_positive (js_sub (plan_price n a) (plan_price n b)) = (\<not> order_key n a \<le> order_key n b)"
  by (auto simp: plan_price_def order_key_def split: option.splits)

lemma insert_sorted_insort_key:
  assumes "\<And>x y. js_positive (cmp x y) = (\<not> key x \<le> key y)"
  shows "insert_sorted cmp x ys = insort_key key x ys"
  by (induction ys) (simp_all add: assms)

lemma array_sort_sort_key:
  assumes "\<And>x y. js_positive (cmp x y) = (\<not> key x \<le> key y)"
  shows "array_sort cmp xs = sort_key key xs"
  unfolding array_sort_def sort_key_def
  by (induction xs) (simp_all add: insert_sorted_insort_key [OF assms])

lemma sortByPrice_sort_key: "sortByPrice rs n = sort_key (order_key n) rs"
  unfolding sortByPrice_def by (rule array_sort_sort_key) (rule compare_by_order_key)

lemma has_plan_order_key: "has_plan n r = (\<not> fst (order_key n r))"
  by (simp add: has_plan_def order_key_def split: option.splits)

lemma sortByPrice_sorted: "sorted (map (order_key n) (sortByPrice rs n))"
  by (simp add: sortByPrice_sort_key)

lemma sortByPrice_set: "set (sortByPrice rs n) = set rs"
  by (simp add: sortByPrice_sort_key)

lemma sortByPrice_length: "length (sortByPrice rs n) = length rs"
  by (simp add: sortByPrice_sort_key)

lemma sortByPrice_stable:
  "filter (\<lambda>r. order_key n r = k) (sortByPrice rs n) = filter (\<lambda>r. order_key n r = k) rs"
  by (simp add: sortByPrice_sort_key sort_key_stable)

lemma sorted_has_plan_split:
  "sorted (map (order_key n) xs) \<Longrightarrow> xs = filter (has_plan n) xs @ filter (\<lambda>r. \<not> has_plan n r) xs"
proof (induction xs)
  case Nil
  then show ?case by simp
next
  case (Cons x xs)
  show ?case
  proof (cases "has_plan n x")
    case True
    with Cons show ?thesis by simp
  next
    case False
    have "\<not> has_plan n y" if "y \<in> set xs" for y
    proof -
      have "order_key n x \<le> order_key n y" using Cons.prems that by simp
      with False show ?thesis
        by (cases "order_key n x"; cases "order_key n y") (auto simp: has_plan_order_key)
    qed
    then have "filter (has_plan n) xs = []" and "filter (\<lambda>r. \<not> has_plan n r) xs = xs"
      by (simp_all add: filter_empty_conv filter_id_conv)
    with False show ?thesis by simp
  qed
qed

lemma normalize_region_id: "normalize_region idr_rates region_id = normalized_id"
proof -
  have "Math_round (9 / 16000 * (72 / 10) * 100) = 0" by code_simp
  then show ?thesis
    by (simp add: normalize_region_def normalize_plan_def region_id_def normalized_id_def
        convertToCNY_def idr_rates_def no_rate_def js_def)
qed

lemma normalize_region_cn: "normalize_region idr_rates region_cn = normalized_cn"
proof -
  have "Math_round (6 * 100) = 600" by code_simp
  then show ?thesis
    by (simp add: normalize_region_def normalize_plan_def region_cn_def normalized_cn_def
        convertToCNY_def)
qed

lemma benchmark_price_id: "benchmark_price normalized_id = PosInf"
  by (simp add: benchmark_price_def normalized_id_def)

lemma benchmark_price_cn: "benchmark_price normalized_cn = Fin 6"
  by (simp add: benchmark_price_def normalized_cn_def)

lemma plan_price_id: "plan_price (js ''50GB'') normalized_id = Fin 0"
  by (simp add: plan_price_def normalized_id_def)

lemma plan_price_cn: "plan_price (js ''50GB'') normalized_cn = Fin 6"
  by (simp add: plan_price_def normalized_cn_def)

lemma main_sort_example:
  "array_sort main_compare [normalized_id, normalized_cn] = [normalized_cn, normalized_id]"
  by (simp add: array_sort_def main_compare_def benchmark_price_id benchmark_price_cn)

lemma sortByPrice_example:
  "sortByPrice [normalized_id, normalized_cn] (js ''50GB'') = [normalized_id, normalized_cn]"
  by (simp add: sortByPrice_def array_sort_def plan_price_id plan_price_cn)

text \<open>
  C1. The ranking of \<open>main\<close> should sort by the 50 GB price, a region without that price
  last. At this input it does not: Indonesia's 50 GB plan has the price \<open>PriceInCNY = 0\<close>,
  the smallest of the two, and \<open>0 || Infinity\<close> moves it behind China's \<open>6\<close> as if
  the region had no such plan.
\<close>

theorem main_sort_zero_price_last:
  "main_result (Inr idr_rates) [region_id, region_cn] (js ''2026-01-01T00:00:00.000Z'') =
     Inr \<lparr>lastUpdated = js ''2026-01-01T00:00:00.000Z'',
          source = js ''Apple Support + ExchangeRate-API'',
          regions = [normalized_cn, normalized_id]\<rparr>"
proof -
  have "idr_rates (js ''CNY'') = Some (72 / 10)" by (simp add: idr_rates_def)
  then show ?thesis
    by (simp add: main_result_def normalize_region_id normalize_region_cn main_sort_example)
qed

text \<open>
  C8. \<open>sortByPrice\<close> for the tier \<open>50GB\<close> and the sort of \<open>main\<close> should order the
  same list alike. On the two normalized regions above they do not: \<open>sortByPrice\<close> puts
  the price \<open>0\<close> first, the sort of \<open>main\<close> puts it last.
\<close>

theorem sortByPrice_differs_from_main_sort:
  "sortByPrice (map (normalize_region idr_rates) [region_id, region_cn]) (js ''50GB'')
     = [normalized_id, normalized_cn] \<and>
   array_sort main_compare (map (normalize_region idr_rates) [region_id, region_cn])
     = [normalized_cn, normalized_id] \<and>
   normalized_id \<noteq> normalized_cn"
  by (simp add: normalize_region_id normalize_region_cn main_sort_example sortByPrice_example)
    (simp add: normalized_id_def normalized_cn_def js_def)

text \<open>Without a 50 GB price of zero the two sorts agree.\<close>

lemma set_insert_sorted: "set (insert_sorted cmp x ys) = insert x (set ys)"
  by (induction ys) auto

lemma set_array_sort: "set (array_sort cmp xs) = set xs"
  unfolding array_sort_def by (induction xs) (simp_all add: set_insert_sorted)

lemma insert_sorted_cong:
  "(\<And>y. y \<in> set ys \<Longrightarrow> js_positive (c1 x y) = js_positive (c2 x y)) \<Longrightarrow>
   insert_sorted c1 x ys = insert_sorted c2 x ys"
  by (induction ys) simp_all

lemma array_sort_cong:
  "(\<And>x y. x \<in> set xs \<Longrightarrow> y \<in> set xs \<Longrightarrow> js_positive (c1 x y) = js_positive (c2 x y)) \<Longrightarrow>
   array_sort c1 xs = array_sort c2 xs"
proof (induction xs)
  case Nil
  then show ?case by (simp add: array_sort_def)
next
  case (Cons x xs)
  have "array_sort c1 xs = array_sort c2 xs"
    using Cons by simp
  moreover have "insert_sorted c1 x (array_sort c2 xs) = insert_sorted c2 x (array_sort c2 xs)"
    by (rule insert_sorted_cong) (simp add: set_array_sort Cons.prems)
  ultimately show ?case
    by (simp add: array_sort_def)
qed

lemma benchmark_price_nonzero:
  "(\<And>p. find (\<lambda>p. Name p = js ''50GB'') (Plans r) = Some p \<Longrightarrow> PriceInCNY p \<noteq> 0) \<Longrightarrow>
   benchmark_price r = plan_price (js ''50GB'') r"
  by (simp add: benchmark_price_def plan_price_def split: option.splits)

lemma main_sort_without_zero_price:
  assumes "\<And>r p. r \<in> set rs \<Longrightarrow> find (\<lambda>p. Name p = js ''50GB'') (Plans r) = Some p \<Longrightarrow>
             PriceInCNY p \<noteq> 0"
  shows "array_sort main_compare rs = sortByPrice rs (js ''50GB'')"
  unfolding sortByPrice_def
  by (rule array_sort_cong) (simp add: main_compare_def benchmark_price_nonzero assms)

text \<open>The regions of the dataset are the normalized input regions, each once.\<close>

lemma main_result_regions:
  assumes "main_result (Inr rates) rs stamp = Inr d"
  shows "set (regions d) = normalize_region rates ` set rs"
    and "length (regions d) = length rs"
proof -
  have "rates (js ''CNY'') \<noteq> None"
    using assms by (auto simp: main_result_def split: option.splits)
  then have d: "regions d = array_sort main_compare (map (normalize_region rates) rs)"
    using assms by (auto simp: main_result_def)
  show "set (regions d) = normalize_region rates ` set rs"
    by (simp add: d set_array_sort)
  have "length (array_sort c xs) = length xs" for c and xs :: "nplan region list"
  proof (induction xs)
    case Nil
    then show ?case by (simp add: array_sort_def)
  next
    case (Cons x xs)
    have "length (insert_sorted c x ys) = Suc (length ys)" for ys
      by (induction ys) simp_all
    with Cons show ?case by (simp add: array_sort_def)
  qed
  then show "length (regions d) = length rs"
    by (simp add: d)
qed

lemma Plans_normalize_region:
  "Plans (normalize_region rates r) = map (normalize_plan rates (Currency r)) (Plans r)"
  by (simp add: normalize_region_def)

subsection \<open>The ranked listing\<close>

lemma ranked_items_none:
  "(\<And>r. r \<in> set ms \<Longrightarrow> \<not> has_plan n r) \<Longrightarrow> ranked_items n idx ms = []"
  by (induction ms arbitrary: idx) (auto simp: has_plan_def)

lemma ranked_items_prefix:
  assumes "\<And>r. r \<in> set ps \<Longrightarrow> has_plan n r" and "\<And>r. r \<in> set ms \<Longrightarrow> \<not> has_plan n r"
  shows "length (ranked_items n idx (ps @ ms)) = length ps \<and>
         (\<forall>i < length ps. \<exists>p. find (\<lambda>p. Name p = n) (Plans (ps ! i)) = Some p \<and>
              ranked_items n idx (ps @ ms) ! i = createItem (ps ! i) p n (Rank (idx + i + 1)))"
  using assms(1)
proof (induction ps arbitrary: idx)
  case Nil
  then show ?case by (simp add: ranked_items_none assms(2))
next
  case (Cons a ps)
  have "has_plan n a"
    using Cons.prems by simp
  then obtain p where p: "find (\<lambda>p. Name p = n) (Plans a) = Some p"
    by (auto simp: has_plan_def)
  have IH: "length (ranked_items n (Suc idx) (ps @ ms)) = length ps \<and>
         (\<forall>i < length ps. \<exists>p. find (\<lambda>p. Name p = n) (Plans (ps ! i)) = Some p \<and>
              ranked_items n (Suc idx) (ps @ ms) ! i = createItem (ps ! i) p n (Rank (Suc idx + i + 1)))"
    using Cons.IH [of "Suc idx"] Cons.prems by simp
  show ?case
  proof (intro conjI allI impI)
    show "length (ranked_items n idx ((a # ps) @ ms)) = length (a # ps)"
      using IH p by simp
  next
    fix i assume "i < length (a # ps)"
    then show "\<exists>p. find (\<lambda>p. Name p = n) (Plans ((a # ps) ! i)) = Some p \<and>
              ranked_items n idx ((a # ps) @ ms) ! i = createItem ((a # ps) ! i) p n (Rank (idx + i + 1))"
      using IH p by (cases i) auto
  qed
qed

lemma region_items_ranked:
  "\<not> (searchQuery \<noteq> None \<and> searchQuery \<noteq> Some [] \<and> length filtered = 1) \<Longrightarrow>
   region_items searchQuery selectedPlan filtered =
     ranked_items selectedPlan 0 (sortByPrice filtered selectedPlan)"
  by (auto simp: region_items_def)

lemma sortByPrice_filter_has_plan:
  "length (filter (has_plan n) (sortByPrice rs n)) = length (filter (has_plan n) rs)"
  by (simp add: sortByPrice_sort_key filter_sort)

text \<open>
  C9. In the ranking branch of \<open>run\<close> (no region filter, or a filter matching several
  regions; with no match \<open>run\<close> has answered before), the items are those of the regions
  that offer the selected tier, in sorted order: a region without the tier yields no item.
  The item at position \<open>i\<close> is made from the region at position \<open>i\<close> of the sorted
  list and from its plan of that name, with rank \<open>i + 1\<close>; so the ranks are
  \<open>1, 2, ..., k\<close> for the \<open>k\<close> regions that offer the tier.
\<close>

theorem ranked_listing:
  assumes "\<not> (searchQuery \<noteq> None \<and> searchQuery \<noteq> Some [] \<and> length filtered = 1)"
  shows "let sorted = sortByPrice filtered selectedPlan;
             items = region_items searchQuery selectedPlan filtered
         in map item_region items = filter (has_plan selectedPlan) sorted \<and>
            length items = length (filter (has_plan selectedPlan) filtered) \<and>
            map item_rank items = map (\<lambda>i. Rank (i + 1)) [0 ..< length items] \<and>
            (\<forall>i < length items.
               item_region (items ! i) = sorted ! i \<and>
               item_rank (items ! i) = Rank (i + 1) \<and>
               item_planName (items ! i) = selectedPlan \<and>
               find (\<lambda>p. Name p = selectedPlan) (Plans (sorted ! i)) = Some (item_plan (items ! i)))"
proof -
  define sorted where "sorted = sortByPrice filtered selectedPlan"
  define items where "items = region_items searchQuery selectedPlan filtered"
  define ps where "ps = filter (has_plan selectedPlan) sorted"
  define ms where "ms = filter (\<lambda>r. \<not> has_plan selectedPlan r) sorted"
  have split: "sorted = ps @ ms"
    unfolding ps_def ms_def sorted_def
    by (rule sorted_has_plan_split) (rule sortByPrice_sorted)
  have items: "items = ranked_items selectedPlan 0 (ps @ ms)"
    unfolding items_def using assms split by (simp add: region_items_ranked sorted_def)
  have pre: "length items = length ps \<and>
         (\<forall>i < length ps. \<exists>p. find (\<lambda>p. Name p = selectedPlan) (Plans (ps ! i)) = Some p \<and>
              items ! i = createItem (ps ! i) p selectedPlan (Rank (0 + i + 1)))"
    unfolding items by (rule ranked_items_prefix) (simp_all add: ps_def ms_def)
  have len: "length items = length ps"
    using pre by simp
  have nth: "item_region (items ! i) = sorted ! i \<and>
             item_rank (items ! i) = Rank (i + 1) \<and>
             item_planName (items ! i) = selectedPlan \<and>
             find (\<lambda>p. Name p = selectedPlan) (Plans (sorted ! i)) = Some (item_plan (items ! i))"
    if "i < length items" for i
  proof -
    from that len have i: "i < length ps" by simp
    with pre obtain p where "find (\<lambda>p. Name p = selectedPlan) (Plans (ps ! i)) = Some p"
      and "items ! i = createItem (ps ! i) p selectedPlan (Rank (0 + i + 1))"
      by blast
    moreover have "sorted ! i = ps ! i"
      using i by (simp add: split nth_append)
    ultimately show ?thesis
      by (simp add: createItem_def)
  qed
  have regions: "map item_region items = ps"
  proof (rule nth_equalityI)
    show "length (map item_region items) = length ps" using len by simp
  next
    fix i assume "i < length (map item_region items)"
    then have i: "i < length items" by simp
    then have "i < length ps" using len by simp
    then have "sorted ! i = ps ! i" by (simp add: split nth_append)
    with nth [OF i] i show "map item_region items ! i = ps ! i" by simp
  qed
  have ranks: "map item_rank items = map (\<lambda>i. Rank (i + 1)) [0 ..< length items]"
  proof (rule nth_equalityI)
    show "length (map item_rank items) = length (map (\<lambda>i. Rank (i + 1)) [0 ..< length items])"
      by simp
  next
    fix i assume "i < length (map item_rank items)"
    then have i: "i < length items" by simp
    with nth [OF i]
    show "map item_rank items ! i = map (\<lambda>i. Rank (i + 1)) [0 ..< length items] ! i"
      by simp
  qed
  have count: "length items = length (filter (has_plan selectedPlan) filtered)"
    using len by (simp add: ps_def sorted_def sortByPrice_filter_has_plan)
  from regions ranks count nth show ?thesis
    unfolding Let_def sorted_def [symmetric] items_def [symmetric] ps_def by blast
qed

lemma example_sorted:
  "sortByPrice [normalized_2tb_only, normalized_us, normalized_cn] (js ''50GB'') =
     [normalized_cn, normalized_us, normalized_2tb_only]"
  by (simp add: sortByPrice_def array_sort_def plan_price_def normalized_cn_def normalized_us_def
      normalized_2tb_only_def js_def)

lemma example_has_plan:
  "has_plan (js ''50GB'') normalized_cn" "has_plan (js ''50GB'') normalized_us"
  "\<not> has_plan (js ''50GB'') normalized_2tb_only"
  by (simp_all add: has_plan_def normalized_cn_def normalized_us_def normalized_2tb_only_def js_def)

theorem ranked_listing_witness:
  "map item_region (region_items None (js ''50GB'') [normalized_2tb_only, normalized_us, normalized_cn])
     = [normalized_cn, normalized_us] \<and>
   map item_rank (region_items None (js ''50GB'') [normalized_2tb_only, normalized_us, normalized_cn])
     = [Rank 1, Rank 2]"
proof -
  define items where
    "items = region_items None (js ''50GB'') [normalized_2tb_only, normalized_us, normalized_cn]"
  have "\<not> ((None :: jsstring option) \<noteq> None \<and> (None :: jsstring option) \<noteq> Some [] \<and>
      length [normalized_2tb_only, normalized_us, normalized_cn] = 1)"
    by simp
  note listing = ranked_listing [OF this, of "js ''50GB''", unfolded Let_def, folded items_def]
  have regions: "map item_region items = [normalized_cn, normalized_us]"
    using listing by (simp add: example_sorted example_has_plan)
  have "length items = 2"
    using listing by (simp add: example_has_plan)
  moreover have "map item_rank items = map (\<lambda>i. Rank (i + 1)) [0 ..< length items]"
    using listing by blast
  ultimately have "map item_rank items = [Rank 1, Rank 2]"
    by (simp add: numeral_2_eq_2)
  with regions show ?thesis
    unfolding items_def by simp
qed

subsection \<open>The cache resolver\<close>

lemma file_text_calls [simp]: "file_text (w\<lparr>calls := c\<rparr>) path = file_text w path"
  by (simp add: file_text_def readFile_def)

lemma readFile_eq:
  "readFile path w = (file_text w path, w\<lparr>calls := calls w @ [Read path]\<rparr>)"
  by (simp add: file_text_def readFile_def)

lemma ensureDir_eq: "ensureDir path w = w\<lparr>calls := calls w @ [MkDir path]\<rparr>"
  by (simp add: ensureDir_def)

lemma getFileMtime_calls [simp]: "getFileMtime path (w\<lparr>calls := c\<rparr>) = getFileMtime path w"
  by (simp add: getFileMtime_def)

lemma parsed_None [simp]: "parsed env None = None"
  by (simp add: parsed_def)

lemma stale_step_never_raises: "\<exists>v. fst (stale_step env p w) = Inr v"
  by (simp add: stale_step_def readFile_eq split: option.splits)

lemma remote_step_never_raises: "\<exists>v. fst (remote_step env p w) = Inr v"
  by (simp add: remote_step_def fetchRemote_def stale_step_never_raises split: option.splits)

lemma local_step_never_raises: "\<exists>v. fst (local_step env p w) = Inr v"
  by (simp add: local_step_def readFile_eq Let_def remote_step_never_raises split: option.splits)

lemma getPriceData_never_raises: "\<exists>v. fst (getPriceData env w) = Inr v"
  by (simp add: getPriceData_def readFile_eq Let_def local_step_never_raises
      split: option.splits prod.splits)

text \<open>
  C3. When the cache file, the bundled local copy and the remote fetch each fail to yield
  text that parses (the text is missing, empty, or \<open>JSON.parse\<close> throws on it; the
  fresh read and the stale re-read are reads of the same cache file), \<open>getPriceData\<close>
  returns \<open>null\<close> and raises nothing; no file is written. By
  \<open>getPriceData_never_raises\<close> it raises nothing in any other case either.
\<close>

theorem total_failure_returns_null:
  assumes "parsed env (file_text w (cacheDir env @ js ''/prices.json'')) = None"
    and "parsed env (file_text w (workflowDir env @ js ''/data/prices.json'')) = None"
    and "parsed env (curl env dataURL) = None"
  shows "fst (getPriceData env w) = Inr None \<and> files (snd (getPriceData env w)) = files w"
  using assms
  by (simp add: getPriceData_def local_step_def remote_step_def stale_step_def readFile_eq
      ensureDir_eq fetchRemote_def Let_def)

theorem total_failure_returns_null_witness:
  "fst (getPriceData offline_env empty_world) = Inr None \<and>
   files (snd (getPriceData offline_env empty_world)) = files empty_world"
proof -
  have "parsed offline_env (file_text empty_world (cacheDir offline_env @ js ''/prices.json'')) = None"
    and "parsed offline_env (file_text empty_world (workflowDir offline_env @ js ''/data/prices.json'')) = None"
    and "parsed offline_env (curl offline_env dataURL) = None"
    by (simp_all add: file_text_def readFile_def empty_world_def offline_env_def)
  then show ?thesis
    by (rule total_failure_returns_null)
qed

lemma JSON_parse_ok_not_empty: "JSON_parse env s = Inr v \<Longrightarrow> s \<noteq> []"
  by (auto simp: JSON_parse_def)

lemma parsed_ok: "JSON_parse env s = Inr v \<Longrightarrow> parsed env (Some s) = Some (s, v)"
  by (frule JSON_parse_ok_not_empty) (simp add: parsed_def)

lemma parsed_throws: "JSON_parse env s = Inl e \<Longrightarrow> parsed env (Some s) = None"
  by (simp add: parsed_def)

lemma fresh_cache_read:
  assumes "files w (cacheDir env @ js ''/prices.json'') = Some f" and "modified f = Some m"
    and "m \<noteq> 0" and "now env - m < cacheTTL" and "content f = Some s"
  shows "getPriceData env w =
     (case parsed env (Some s) of
        Some (s', v) \<Rightarrow>
          (Inr (Some v),
           w\<lparr>calls := calls w @ [MkDir (cacheDir env), Read (cacheDir env @ js ''/prices.json'')]\<rparr>)
      | None \<Rightarrow>
          local_step env (cacheDir env @ js ''/prices.json'')
           (w\<lparr>calls := calls w @ [MkDir (cacheDir env), Read (cacheDir env @ js ''/prices.json'')]\<rparr>))"
  using assms
  by (simp add: getPriceData_def Let_def ensureDir_def readFile_def getFileMtime_def)

text \<open>
  C4, as the code has it. When the cache file exists with a modification time \<open>m\<close>
  that is not zero and with \<open>now - m < TTL\<close>, then: if its text parses,
  \<open>getPriceData\<close> returns the parsed value having only made sure of the cache directory
  and read the cache file (no remote fetch, no read of the bundled copy, no write); if
  \<open>JSON.parse\<close> throws on it, the function goes on with the bundled local copy.
\<close>

theorem fresh_cache_short_circuit:
  assumes "files w (cacheDir env @ js ''/prices.json'') = Some f" and "modified f = Some m"
    and "m \<noteq> 0" and "now env - m < cacheTTL" and "content f = Some s"
  shows "(\<forall>v. JSON_parse env s = Inr v \<longrightarrow>
            getPriceData env w =
              (Inr (Some v),
               w\<lparr>calls := calls w @ [MkDir (cacheDir env), Read (cacheDir env @ js ''/prices.json'')]\<rparr>)) \<and>
         (\<forall>e. JSON_parse env s = Inl e \<longrightarrow>
            getPriceData env w =
              local_step env (cacheDir env @ js ''/prices.json'')
                (w\<lparr>calls := calls w @ [MkDir (cacheDir env), Read (cacheDir env @ js ''/prices.json'')]\<rparr>))"
  by (simp add: fresh_cache_read [OF assms] parsed_ok parsed_throws)

lemma fresh_world_cache:
  "files fresh_world (cacheDir offline_env @ js ''/prices.json'') =
     Some \<lparr>content = Some (js ''1''), modified = Some 4000000\<rparr>"
  by (simp add: fresh_world_def offline_env_def js_def)

lemma corrupt_world_cache:
  "files corrupt_world (cacheDir offline_env @ js ''/prices.json'') =
     Some \<lparr>content = Some (js ''{''), modified = Some 4000000\<rparr>"
  by (simp add: corrupt_world_def offline_env_def js_def)

lemma offline_fresh: "now offline_env - 4000000 < cacheTTL"
  by (simp add: offline_env_def cacheTTL_def)

lemma parse_text_1: "JSON_parse offline_env (js ''1'') = Inr 1"
  by (simp add: JSON_parse_def offline_env_def digits_json_def js_def)

lemma parse_text_brace: "JSON_parse offline_env (js ''{'') = Inl SyntaxError"
  by (simp add: JSON_parse_def offline_env_def digits_json_def js_def)

theorem fresh_cache_short_circuit_witness:
  "files fresh_world (cacheDir offline_env @ js ''/prices.json'') =
     Some \<lparr>content = Some (js ''1''), modified = Some 4000000\<rparr> \<and>
   now offline_env - 4000000 < cacheTTL \<and>
   JSON_parse offline_env (js ''1'') = Inr 1 \<and>
   getPriceData offline_env fresh_world =
     (Inr (Some 1), fresh_world\<lparr>calls := [MkDir (js ''/cache''), Read (js ''/cache/prices.json'')]\<rparr>) \<and>
   JSON_parse offline_env (js ''{'') = Inl SyntaxError \<and>
   getPriceData offline_env corrupt_world =
     local_step offline_env (js ''/cache/prices.json'')
       (corrupt_world\<lparr>calls := [MkDir (js ''/cache''), Read (js ''/cache/prices.json'')]\<rparr>)"
proof -
  have a: "getPriceData offline_env fresh_world =
     (Inr (Some 1), fresh_world\<lparr>calls := [MkDir (js ''/cache''), Read (js ''/cache/prices.json'')]\<rparr>)"
    using fresh_cache_short_circuit
        [where env = offline_env and w = fresh_world and m = 4000000 and s = "js ''1''",
         OF fresh_world_cache _ _ offline_fresh]
      parse_text_1
    by (simp add: fresh_world_def offline_env_def js_def)
  have b: "getPriceData offline_env corrupt_world =
     local_step offline_env (js ''/cache/prices.json'')
       (corrupt_world\<lparr>calls := [MkDir (js ''/cache''), Read (js ''/cache/prices.json'')]\<rparr>)"
    using fresh_cache_short_circuit
        [where env = offline_env and w = corrupt_world and m = 4000000 and s = "js ''{''",
         OF corrupt_world_cache _ _ offline_fresh]
      parse_text_brace
    by (simp add: corrupt_world_def offline_env_def js_def)
  from a b show ?thesis
    using fresh_world_cache offline_fresh parse_text_1 parse_text_brace by blast
qed

text \<open>
  C4 as stated fails where the modification time is \<open>0\<close>, the value \<open>getFileMtime\<close>
  also gives for a missing file: the guard \<open>mtime && ...\<close> skips a cache file dated at
  the epoch although \<open>now - mtime < TTL\<close> and its text parses to \<open>1\<close>; the bundled
  copy is read and its value \<open>2\<close> is returned.
\<close>

theorem fresh_cache_short_circuit_counterexample:
  "files epoch_world (cacheDir epoch_env @ js ''/prices.json'') =
     Some \<lparr>content = Some (js ''1''), modified = Some 0\<rparr> \<and>
   now epoch_env - 0 < cacheTTL \<and>
   JSON_parse epoch_env (js ''1'') = Inr 1 \<and>
   fst (getPriceData epoch_env epoch_world) = Inr (Some 2) \<and>
   Read (js ''/wf/data/prices.json'') \<in> set (calls (snd (getPriceData epoch_env epoch_world)))"
  by (simp add: getPriceData_def local_step_def Let_def ensureDir_def readFile_def writeFile_def
      getFileMtime_def parsed_def JSON_parse_def epoch_world_def epoch_env_def digits_json_def
      cacheTTL_def js_def)

subsection \<open>The tokens of a query\<close>

lemma foldl_parse_part_search:
  "snd (foldl parse_part st parts) =
     (case filter (\<lambda>p. p \<notin> set PLAN_TYPES \<and> length p \<ge> 2) parts of
        [] \<Rightarrow> snd st
      | c # cs \<Rightarrow> Some (last (c # cs)))"
proof (induction parts rule: rev_induct)
  case Nil
  then show ?case by simp
next
  case (snoc x xs)
  then show ?case
    by (cases "filter (\<lambda>p. p \<notin> set PLAN_TYPES \<and> length p \<ge> 2) xs")
       (auto simp: parse_part_def)
qed

lemma foldl_parse_part_no_tier:
  "(\<And>p. p \<in> set parts \<Longrightarrow> p \<notin> set PLAN_TYPES) \<Longrightarrow> fst (foldl parse_part st parts) = fst st"
  by (induction parts rule: rev_induct) (auto simp: parse_part_def)

text \<open>
  C10. After the loop over the tokens, the region filter is the last token, in argument
  order, that is not a tier keyword and has at least two code units, and there is no
  filter when there is no such token: a token of one code unit is never the filter. When
  no token is a tier keyword the selected tier is \<open>50GB\<close>.
\<close>

theorem query_tokens:
  "snd (parse_parts parts) =
     (case filter (\<lambda>p. p \<notin> set PLAN_TYPES \<and> length p \<ge> 2) parts of
        [] \<Rightarrow> None
      | c # cs \<Rightarrow> Some (last (c # cs))) \<and>
   ((\<forall>p \<in> set parts. p \<notin> set PLAN_TYPES) \<longrightarrow> fst (parse_parts parts) = js ''50GB'')"
proof -
  have "snd (parse_parts parts) = snd (foldl parse_part (None, None) parts)"
    by (simp add: parse_parts_def case_prod_beta)
  moreover have "fst (parse_parts parts) = js ''50GB''" if "\<forall>p \<in> set parts. p \<notin> set PLAN_TYPES"
  proof -
    have "fst (foldl parse_part (None, None) parts) = None"
      using that by (simp add: foldl_parse_part_no_tier)
    then show ?thesis
      by (simp add: parse_parts_def case_prod_beta)
  qed
  ultimately show ?thesis
    by (simp add: foldl_parse_part_search split: list.splits)
qed

lemma not_tiers:
  "js ''x'' \<notin> set PLAN_TYPES" "js ''jp'' \<notin> set PLAN_TYPES" "js ''us'' \<notin> set PLAN_TYPES"
  by (simp_all add: PLAN_TYPES_def js_def)

theorem query_tokens_witness:
  "js ''x'' \<notin> set PLAN_TYPES \<and> js ''jp'' \<notin> set PLAN_TYPES \<and> js ''us'' \<notin> set PLAN_TYPES \<and>
   parse_parts [js ''x'', js ''jp'', js ''us''] = (js ''50GB'', Some (js ''us''))"
proof -
  have "length (js ''x'') = 1" "length (js ''jp'') = 2" "length (js ''us'') = 2"
    by (simp_all add: js_def)
  then have "snd (parse_parts [js ''x'', js ''jp'', js ''us'']) = Some (js ''us'') \<and>
      fst (parse_parts [js ''x'', js ''jp'', js ''us'']) = js ''50GB''"
    using query_tokens [of "[js ''x'', js ''jp'', js ''us'']"] not_tiers by simp
  then show ?thesis
    using not_tiers by (simp add: prod_eq_iff)
qed

text \<open>From the arguments to the tokens, and from the tokens to tier and filter.\<close>

lemma tokens_example:
  "parts_of (query_of [js ''2TB'', js '' Japan  x'']) = [js ''2tb'', js ''japan'', js ''x'']"
  by (simp add: parts_of_def query_of_def trim_def toLowerCase_def is_space_def js_def)

lemma parse_example:
  "parse_parts [js ''2tb'', js ''japan'', js ''x''] = (js ''2TB'', Some (js ''japan''))"
  by (simp add: parse_parts_def parse_part_def PLAN_TYPES_def toUpperCase_def js_def)

subsection \<open>The answers of \<open>run\<close>\<close>

text \<open>
  How \<open>run\<close> puts the pieces together: the tokens give tier and filter, the listing
  is \<open>region_items\<close> of the filtered regions, followed by the note on the update time
  when the document has one; no match and no data have answers of their own.
\<close>

lemma run_listing:
  assumes "query_of argv \<noteq> js ''help''" and "query_of argv \<noteq> js ''?''"
    and "parse_parts (parts_of (query_of argv)) = (selectedPlan, searchQuery)"
    and "getPriceData env w = (Inr (Some data), w')"
    and "doc_regions data = Some rs" and "rs \<noteq> []"
    and "filterRegions rs searchQuery \<noteq> []"
  shows "fst (run argv env w) =
     Inr (Items (region_items searchQuery selectedPlan (filterRegions rs searchQuery) @
                 (case doc_lastUpdated data of
                    None \<Rightarrow> []
                  | Some d \<Rightarrow> if d = [] then [] else [UpdatedItem d])))"
  using assms by (simp add: run_def Let_def split: option.splits)

lemma run_no_match:
  assumes "query_of argv \<noteq> js ''help''" and "query_of argv \<noteq> js ''?''"
    and "parse_parts (parts_of (query_of argv)) = (selectedPlan, searchQuery)"
    and "getPriceData env w = (Inr (Some data), w')"
    and "doc_regions data = Some rs" and "rs \<noteq> []"
    and "filterRegions rs searchQuery = []"
  shows "fst (run argv env w) = Inr NoMatch"
  using assms by (simp add: run_def Let_def)

lemma run_no_data:
  assumes "query_of argv \<noteq> js ''help''" and "query_of argv \<noteq> js ''?''"
    and "fst (getPriceData env w) = Inr None"
  shows "fst (run argv env w) = Inr ErrorOutput"
  using assms by (auto simp: run_def Let_def split: prod.splits)

end
